theory Spec2Isabelle
  imports Main
begin

section \<open>The component host runtime of render3/component.ts\<close>

text \<open>
  The module is effectful TypeScript: it reads and writes one module-level flag
  (\<open>isDirty\<close>), the instruction layer's current view, and a hidden property
  (\<open>NG_HOST_SYMBOL\<close>) on component instances, and it calls application code (factories,
  feature hooks, schedulers, destroy callbacks) that may raise. The embedding threads an
  explicit world through every call and returns the world in the error case as well, since
  a JavaScript exception does not undo the writes made before it.
\<close>

subsection \<open>Values and errors\<close>

text \<open>
  A value of the generic parameter \<open>T\<close>: \<open>Nullish\<close> stands for \<open>null\<close> and
  \<open>undefined\<close>, \<open>Instance i\<close> for the object with identity \<open>i\<close>. A primitive value
  behaves like an object that carries no hidden property, so it is covered by an
  \<open>Instance\<close> without a host node.
\<close>

datatype component = Nullish | Instance nat

text \<open>
  Everything that can be thrown. \<open>TypeError p\<close> is the engine's own error for reading
  property \<open>p\<close> of \<open>null\<close> or \<open>undefined\<close>; \<open>AssertionError\<close> is what \<open>assertNotNull\<close>
  throws; \<open>NotImplementedError\<close> is the object \<open>notImplemented()\<close> builds;
  \<open>HostResolutionError\<close> is the host locator's failure; \<open>RendererError\<close> is an error raised
  inside \<open>createError\<close>; \<open>Thrown k\<close> is any error raised by application code or by the
  renderer.
\<close>

datatype error =
    TypeError string
  | AssertionError string
  | NotImplementedError
  | HostResolutionError
  | RendererError string
  | Thrown nat

type_synonym 'a result = "error + 'a"

type_synonym relement = nat
type_synonym renderer = nat

subsection \<open>Nodes, views and the world\<close>

text \<open>
  \<open>LElement\<close> (declared in \<open>l_node.ts\<close>, not part of the sources): the fields this module
  reads. \<open>data\<close> and \<open>view\<close> are handles the module only passes on.
\<close>

record lelement =
  native :: relement
  data :: "nat option"
  view :: nat

text \<open>
  A slot of a view's per-node data: the host node record, a directive instance, or a hole
  a JavaScript array has at an index that was never assigned.
\<close>

datatype entry = Hole | ElementEntry lelement | InstanceEntry component

record view_state =
  viewIndex :: int
  viewRenderer :: renderer
  viewData :: "entry list"

text \<open>
  The world: the module variable \<open>isDirty\<close>, the instruction layer's current view
  (\<open>None\<close> before the first \<open>enterView\<close>), the \<open>NG_HOST_SYMBOL\<close> property of every object
  (\<open>None\<close> where the property was never attached), and the rest of the environment.
\<close>

record 'e world =
  isDirty :: bool
  currentView :: "view_state option"
  hostNodes :: "nat \<Rightarrow> lelement option"
  ext :: 'e

type_synonym ('e, 'a) action = "'e world \<Rightarrow> 'a result \<times> 'e world"

subsection \<open>Definitions, options and collaborators\<close>

record 'e component_def =
  tag :: string
  n :: "('e, component) action"
  rendererType :: nat

record 'e component_type =
  ngComponentDef :: "'e component_def"

record renderer_factory =
  createRenderer :: "relement \<Rightarrow> nat \<Rightarrow> renderer result"

datatype host_ref = HostElement relement | HostSelector string

datatype injector = NULL_INJECTOR | Injector nat

type_synonym 'e feature = "component \<Rightarrow> 'e component_def \<Rightarrow> ('e, unit) action"

record 'e create_component_option_args =
  rendererFactory :: "renderer_factory option"
  host :: "host_ref option"
  injector :: "injector option"
  features :: "'e feature list option"

text \<open>
  What the module imports and the build flag it reads. \<open>createError\<close> is called by
  \<open>detectChanges\<close> as a statement: \<open>Inr ()\<close> means it returned its error object (which the
  caller drops), \<open>Inl e\<close> that it raised \<open>e\<close> itself. \<open>querySelector\<close> is the renderer's
  lookup of a host by selector; \<open>nodeData\<close> and \<open>nodeView\<close> are the handles the instruction
  layer binds to a fresh host node.
\<close>

record 'e collaborators =
  ngDevMode :: bool
  domRendererFactory3 :: renderer_factory
  querySelector :: "renderer_factory \<Rightarrow> string \<Rightarrow> 'e world \<Rightarrow> relement option"
  renderComponentOrTemplate :: "lelement \<Rightarrow> nat \<Rightarrow> component \<Rightarrow> ('e, unit) action"
  createError :: "string \<Rightarrow> component \<Rightarrow> unit result"
  nodeData :: "'e component_def \<Rightarrow> nat"
  nodeView :: "'e component_def \<Rightarrow> nat"
  requestAnimationFrame :: "(component list \<Rightarrow> ('e, unit) action) \<Rightarrow> ('e, unit) action"

type_synonym 'e scheduler = "(component list \<Rightarrow> ('e, unit) action) \<Rightarrow> ('e, unit) action"

subsection \<open>Helpers of the instruction layer\<close>

text \<open>
  Modelled from the spec: \<open>assertNotNull\<close> of \<open>./assert\<close> is not part of the sources. The
  spec (4.3) says diagnostics builds assert that the value is non-empty; the first argument
  says whether the value is null or undefined.
\<close>

definition assertNotNull :: "bool \<Rightarrow> string \<Rightarrow> unit result" where
  "assertNotNull isNull name = (if isNull then Inl (AssertionError name) else Inr ())"

text \<open>
  Modelled from the spec: \<open>notImplemented\<close> of \<open>./util\<close> is not part of the sources. The
  spec (4.5, 7) names the error an unsupported control point raises.
\<close>

definition notImplemented :: error where
  "notImplemented = NotImplementedError"

text \<open>
  Modelled from the spec: \<open>createViewState\<close> of \<open>./instructions\<close> is not part of the
  sources. The spec (3): a render context holds the index of the element being built, the
  active renderer and an ordered container of per-node data.
\<close>

definition createViewState :: "int \<Rightarrow> renderer \<Rightarrow> entry list \<Rightarrow> view_state" where
  "createViewState i r d = \<lparr>viewIndex = i, viewRenderer = r, viewData = d\<rparr>"

text \<open>
  Modelled from the spec: \<open>enterView\<close> of \<open>./instructions\<close> is not part of the sources. The
  spec (4.1): \<open>enter\<close> makes the context the current one and returns whatever was current
  before.
\<close>

definition enterView :: "view_state \<Rightarrow> 'e world \<Rightarrow> view_state option \<times> 'e world" where
  "enterView newView w = (currentView w, w\<lparr>currentView := Some newView\<rparr>)"

text \<open>
  Modelled from the spec: \<open>leaveView\<close> of \<open>./instructions\<close> is not part of the sources. The
  spec (4.1): \<open>leave\<close> restores the context it is given as the current one.
\<close>

definition leaveView :: "view_state option \<Rightarrow> 'e world \<Rightarrow> 'e world" where
  "leaveView oldView w = w\<lparr>currentView := oldView\<rparr>"

text \<open>
  Modelled from the spec: \<open>locateHostElement\<close> of \<open>./instructions\<close> is not part of the
  sources. The spec (2, 6): the host locator resolves a handle from either a provided
  reference or a lookup key, and fails with \<open>HostResolutionError\<close> if nothing matches.
\<close>

definition locateHostElement ::
  "'e collaborators \<Rightarrow> renderer_factory \<Rightarrow> host_ref \<Rightarrow> 'e world \<Rightarrow> relement result" where
  "locateHostElement K factory elementOrSelector w =
     (case elementOrSelector of
        HostElement e \<Rightarrow> Inr e
      | HostSelector s \<Rightarrow>
          (case querySelector K factory s w of
             None \<Rightarrow> Inl HostResolutionError
           | Some e \<Rightarrow> Inr e))"

text \<open>The hidden property read \<open>(component as any)[NG_HOST_SYMBOL]\<close>.\<close>

definition ngHost :: "component \<Rightarrow> 'e world \<Rightarrow> lelement option result" where
  "ngHost component w =
     (case component of
        Nullish \<Rightarrow> Inl (TypeError ''NG_HOST_SYMBOL'')
      | Instance i \<Rightarrow> Inr (hostNodes w i))"

subsection \<open>detectChanges, markDirty, getHostElement\<close>

definition detectChanges :: "'e collaborators \<Rightarrow> component \<Rightarrow> ('e, unit) action" where
  "detectChanges K component w =
     (case (if ngDevMode K then assertNotNull (component = Nullish) ''component'' else Inr ()) of
        Inl e \<Rightarrow> (Inl e, w)
      | Inr _ \<Rightarrow>
     (case ngHost component w of
        Inl e \<Rightarrow> (Inl e, w)
      | Inr hostNode \<Rightarrow>
     (case (if ngDevMode K \<and> hostNode = None
            then createError K ''Not a directive instance'' component else Inr ()) of
        Inl e \<Rightarrow> (Inl e, w)
      | Inr _ \<Rightarrow>
     (case hostNode of
        None \<Rightarrow> (Inl (TypeError (if ngDevMode K then ''data'' else ''view'')), w)
      | Some hn \<Rightarrow>
     (case (if ngDevMode K then assertNotNull (data hn = None) ''hostNode.data'' else Inr ()) of
        Inl e \<Rightarrow> (Inl e, w)
      | Inr _ \<Rightarrow>
     (case renderComponentOrTemplate K hn (view hn) component w of
        (Inl e, w') \<Rightarrow> (Inl e, w')
      | (Inr _, w') \<Rightarrow> (Inr (), w'\<lparr>isDirty := False\<rparr>)))))))"

text \<open>
  \<open>Function.prototype.bind\<close> for a function of one parameter that does not read \<open>this\<close>:
  the first argument of \<open>bind\<close> becomes \<open>this\<close>, the others are put in front of the
  arguments of the call, and a parameter that receives no argument is \<open>undefined\<close>.
\<close>

definition js_bind ::
  "(component \<Rightarrow> 'f) \<Rightarrow> component \<Rightarrow> component list \<Rightarrow> component list \<Rightarrow> 'f" where
  "js_bind f thisArg boundArgs args =
     f (case boundArgs @ args of [] \<Rightarrow> Nullish | a # _ \<Rightarrow> a)"

definition markDirty ::
  "'e collaborators \<Rightarrow> component \<Rightarrow> 'e scheduler option \<Rightarrow> ('e, unit) action" where
  "markDirty K component scheduler w =
     (case (if ngDevMode K then assertNotNull (component = Nullish) ''component'' else Inr ()) of
        Inl e \<Rightarrow> (Inl e, w)
      | Inr _ \<Rightarrow>
          if \<not> isDirty w
          then (case scheduler of None \<Rightarrow> requestAnimationFrame K | Some s \<Rightarrow> s)
                 (js_bind (detectChanges K) Nullish [component]) (w\<lparr>isDirty := True\<rparr>)
          else (Inr (), w))"

definition getHostElement :: "component \<Rightarrow> 'e world \<Rightarrow> relement result" where
  "getHostElement component w =
     (case ngHost component w of
        Inl e \<Rightarrow> Inl e
      | Inr None \<Rightarrow> Inl (TypeError ''native'')
      | Inr (Some hn) \<Rightarrow> Inr (native hn))"

subsection \<open>renderComponent\<close>

text \<open>The array assignment \<open>data[i] = v\<close>, which extends a shorter array.\<close>

definition store :: "nat \<Rightarrow> entry \<Rightarrow> entry list \<Rightarrow> entry list" where
  "store i v xs =
     (if i < length xs then xs[i := v] else xs @ replicate (i - length xs) Hole @ [v])"

text \<open>
  Modelled from the spec: \<open>hostElement\<close> of \<open>./instructions\<close> is not part of the sources.
  The spec (3, 4.2 step 3): it creates the root native element entry, the host node record
  that associates the native handle with its render data, at index 0 of the current
  context's data. Reading the data of a missing context is an engine error.
\<close>

definition hostElement ::
  "'e collaborators \<Rightarrow> relement \<Rightarrow> 'e component_def \<Rightarrow> ('e, unit) action" where
  "hostElement K rNode def w =
     (case currentView w of
        None \<Rightarrow> (Inl (TypeError ''data''), w)
      | Some cur \<Rightarrow>
          (Inr (), w\<lparr>currentView := Some (cur\<lparr>viewData :=
             store 0 (ElementEntry \<lparr>native = rNode, data = Some (nodeData K def),
                                   view = nodeView K def\<rparr>) (viewData cur)\<rparr>)\<rparr>))"

text \<open>
  Modelled from the spec: the host node record of a context, which \<open>directive\<close> reads, is
  the root element entry at index 0 of its data (spec 4.2 step 3); \<open>None\<close> is \<open>undefined\<close>.
\<close>

definition rootNode :: "view_state \<Rightarrow> lelement option" where
  "rootNode cur = (case viewData cur of ElementEntry hn # _ \<Rightarrow> Some hn | _ \<Rightarrow> None)"

text \<open>
  Modelled from the spec: \<open>directive\<close> of \<open>./instructions\<close> is not part of the sources. The
  spec (3, 4.2 step 3): it stores the instance at the given index of the current context's
  data, attaches to the instance the back-reference to the host node record, and returns
  the instance. Attaching a property to \<open>null\<close> or \<open>undefined\<close> is an engine error.
\<close>

definition directive ::
  "nat \<Rightarrow> component \<Rightarrow> 'e component_def \<Rightarrow> ('e, component) action" where
  "directive index inst def w =
     (case currentView w of
        None \<Rightarrow> (Inl (TypeError ''data''), w)
      | Some cur \<Rightarrow>
     (case inst of
        Nullish \<Rightarrow> (Inl (TypeError ''NG_HOST_SYMBOL''), w)
      | Instance i \<Rightarrow>
          (Inr inst,
           w\<lparr>hostNodes := (hostNodes w)(i := rootNode cur),
             currentView :=
               Some (cur\<lparr>viewData := store index (InstanceEntry inst) (viewData cur)\<rparr>)\<rparr>)))"

text \<open>\<open>Array.prototype.forEach\<close> over functions that are called for their effect.\<close>

fun forEach :: "('e, unit) action list \<Rightarrow> ('e, unit) action" where
  "forEach [] w = (Inr (), w)"
| "forEach (f # fs) w =
     (case f w of
        (Inl e, w') \<Rightarrow> (Inl e, w')
      | (Inr _, w') \<Rightarrow> forEach fs w')"

text \<open>\<open>opts.host || componentDef.tag\<close>: a missing host and the empty string are falsy.\<close>

definition hostOrTag :: "host_ref option \<Rightarrow> string \<Rightarrow> host_ref" where
  "hostOrTag h t =
     (case h of
        None \<Rightarrow> HostSelector t
      | Some (HostElement e) \<Rightarrow> HostElement e
      | Some (HostSelector s) \<Rightarrow> (if s = [] then HostSelector t else HostSelector s))"

text \<open>The body of the \<open>try\<close> block of \<open>renderComponent\<close>.\<close>

definition renderComponent_try ::
  "'e collaborators \<Rightarrow> relement \<Rightarrow> 'e component_def \<Rightarrow> ('e, component) action" where
  "renderComponent_try K hostNode componentDef w =
     (case hostElement K hostNode componentDef w of
        (Inl e, w1) \<Rightarrow> (Inl e, w1)
      | (Inr _, w1) \<Rightarrow>
     (case n componentDef w1 of
        (Inl e, w2) \<Rightarrow> (Inl e, w2)
      | (Inr inst, w2) \<Rightarrow> directive 1 inst componentDef w2))"

definition renderComponent ::
  "'e collaborators \<Rightarrow> 'e component_type \<Rightarrow> 'e create_component_option_args \<Rightarrow>
   ('e, component) action" where
  "renderComponent K componentType opts w =
     (let rf = (case rendererFactory opts of None \<Rightarrow> domRendererFactory3 K | Some f \<Rightarrow> f);
          componentDef = ngComponentDef componentType
      in
     (case locateHostElement K rf (hostOrTag (host opts) (tag componentDef)) w of
        Inl e \<Rightarrow> (Inl e, w)
      | Inr hostNode \<Rightarrow>
     (case createRenderer rf hostNode (rendererType componentDef) of
        Inl e \<Rightarrow> (Inl e, w)
      | Inr r \<Rightarrow>
     (case enterView (createViewState (- 1) r []) w of
        (oldView, w1) \<Rightarrow>
     (case renderComponent_try K hostNode componentDef w1 of
        (res, w2) \<Rightarrow>
     (let w3 = leaveView oldView w2 in
     (case res of
        Inl e \<Rightarrow> (Inl e, w3)
      | Inr component \<Rightarrow>
     (case forEach (map (\<lambda>feature. feature component componentDef)
                     (case features opts of None \<Rightarrow> [] | Some fs \<Rightarrow> fs)) w3 of
        (Inl e, w4) \<Rightarrow> (Inl e, w4)
      | (Inr _, w4) \<Rightarrow>
     (case detectChanges K component w4 of
        (Inl e, w5) \<Rightarrow> (Inl e, w5)
      | (Inr _, w5) \<Rightarrow> (Inr component, w5))))))))))"

subsection \<open>View handles\<close>

text \<open>
  The object literal of \<open>createViewRef\<close>, and the object \<open>addDestroyable\<close> makes of it.
  \<open>destroyFn\<close> is the variable the closures \<open>destroy\<close> and \<open>onDestroy\<close> share (\<open>None\<close> is
  \<open>null\<close>). The methods \<open>destroy\<close> and \<open>onDestroy\<close> are the functions below; a destroy
  callback acts on the world and cannot reach the handle it is registered on.
\<close>

record 'e embedded_view =
  rootNodes :: "relement list option"
  markForCheck :: "('e, unit) action"
  detach :: "('e, unit) action"
  detectChangesFn :: "component list \<Rightarrow> ('e, unit) action"
  checkNoChanges :: "('e, unit) action"
  reattach :: "('e, unit) action"

record 'e view_ref = "'e embedded_view" +
  destroyed :: bool
  destroyFn :: "('e, unit) action list option"

definition addDestroyable :: "'e embedded_view \<Rightarrow> component \<Rightarrow> 'e view_ref" where
  "addDestroyable obj context =
     \<lparr>rootNodes = rootNodes obj, markForCheck = markForCheck obj, detach = detach obj,
      detectChangesFn = detectChangesFn obj, checkNoChanges = checkNoChanges obj,
      reattach = reattach obj, destroyed = False, destroyFn = None\<rparr>"

definition destroy :: "'e view_ref \<Rightarrow> 'e world \<Rightarrow> unit result \<times> 'e view_ref \<times> 'e world" where
  "destroy this w =
     (case (case destroyFn this of None \<Rightarrow> (Inr (), w) | Some fs \<Rightarrow> forEach fs w) of
        (Inl e, w') \<Rightarrow> (Inl e, this, w')
      | (Inr _, w') \<Rightarrow> (Inr (), this\<lparr>destroyed := True\<rparr>, w'))"

text \<open>\<open>onDestroy\<close> returns what \<open>push\<close> returns, the new length of the array.\<close>

definition onDestroy :: "('e, unit) action \<Rightarrow> 'e view_ref \<Rightarrow> nat \<times> 'e view_ref" where
  "onDestroy fn this =
     (let fs = (case destroyFn this of None \<Rightarrow> [] | Some fs \<Rightarrow> fs) @ [fn]
      in (length fs, this\<lparr>destroyFn := Some fs\<rparr>))"

definition createViewRef ::
  "'e collaborators \<Rightarrow> (component list \<Rightarrow> ('e, unit) action) \<Rightarrow> component \<Rightarrow> 'e view_ref" where
  "createViewRef K detectChanges' context =
     addDestroyable
       \<lparr>rootNodes = None,
        markForCheck = (\<lambda>w. if ngDevMode K then (Inl notImplemented, w) else (Inr (), w)),
        detach = (\<lambda>w. if ngDevMode K then (Inl notImplemented, w) else (Inr (), w)),
        detectChangesFn = detectChanges',
        checkNoChanges = (\<lambda>w. if ngDevMode K then (Inl notImplemented, w) else (Inr (), w)),
        reattach = (\<lambda>w. if ngDevMode K then (Inl notImplemented, w) else (Inr (), w))\<rparr>
       context"

subsection \<open>createComponentRef\<close>

text \<open>
  The \<open>ComponentRef\<close> literal. \<open>hostView\<close> and \<open>changeDetectorRef\<close> are the same object; its
  own \<open>destroy\<close> and \<open>onDestroy\<close> are empty functions.
\<close>

record 'e component_ref =
  location :: relement
  cr_injector :: injector
  cr_instance :: component
  hostView :: "'e view_ref"
  changeDetectorRef :: "'e view_ref"
  componentType :: "'e component_type"

definition createComponentRef ::
  "'e collaborators \<Rightarrow> 'e component_type \<Rightarrow> 'e create_component_option_args \<Rightarrow>
   ('e, 'e component_ref) action" where
  "createComponentRef K ctype opts w =
     (case renderComponent K ctype opts w of
        (Inl e, w') \<Rightarrow> (Inl e, w')
      | (Inr component, w') \<Rightarrow>
     (let hostView = createViewRef K (js_bind (detectChanges K) component []) component in
     (case getHostElement component w' of
        Inl e \<Rightarrow> (Inl e, w')
      | Inr el \<Rightarrow>
          (Inr \<lparr>location = el,
                cr_injector = (case injector opts of None \<Rightarrow> NULL_INJECTOR | Some i \<Rightarrow> i),
                cr_instance = component,
                hostView = hostView,
                changeDetectorRef = hostView,
                componentType = ctype\<rparr>, w'))))"

subsection \<open>Clients\<close>

text \<open>
  A client that calls \<open>markDirty\<close> several times in a row, each call with its own instance
  and scheduler, and keeps what every call returned or raised.
\<close>

fun markDirty_calls ::
  "'e collaborators \<Rightarrow> (component \<times> 'e scheduler option) list \<Rightarrow> 'e world \<Rightarrow>
   unit result list \<times> 'e world" where
  "markDirty_calls K [] w = ([], w)"
| "markDirty_calls K ((c, s) # cs) w =
     (case markDirty K c s w of
        (r, w') \<Rightarrow> (case markDirty_calls K cs w' of (rs, w'') \<Rightarrow> (r # rs, w'')))"

text \<open>
  A client of one view handle: a sequence of \<open>handle.destroy()\<close> and
  \<open>handle.onDestroy(fn)\<close> calls. It keeps what every \<open>destroy\<close> returned or raised.
\<close>

datatype 'e handle_call = Destroy | OnDestroy "('e, unit) action"

fun handle_calls ::
  "'e handle_call list \<Rightarrow> 'e view_ref \<Rightarrow> 'e world \<Rightarrow>
   unit result list \<times> 'e view_ref \<times> 'e world" where
  "handle_calls [] h w = ([], h, w)"
| "handle_calls (Destroy # cs) h w =
     (case destroy h w of
        (r, h', w') \<Rightarrow> (case handle_calls cs h' w' of (rs, hw) \<Rightarrow> (r # rs, hw)))"
| "handle_calls (OnDestroy fn # cs) h w =
     (case onDestroy fn h of (len, h') \<Rightarrow> handle_calls cs h' w)"

subsection \<open>A concrete environment\<close>

text \<open>
  An environment to run the module in: the rest of the world is a log of numbers. The
  render pass logs the native handle it renders into; the selector \<open>x-widget\<close> resolves to
  the handle 7; \<open>createError\<close> returns its error object.
\<close>

definition exK :: "bool \<Rightarrow> nat list collaborators" where
  "exK dev =
     \<lparr>ngDevMode = dev,
      domRendererFactory3 = \<lparr>createRenderer = (\<lambda>h t. Inr 0)\<rparr>,
      querySelector = (\<lambda>rf s w. if s = ''x-widget'' then Some 7 else None),
      renderComponentOrTemplate = (\<lambda>hn v c w. (Inr (), w\<lparr>ext := ext w @ [native hn]\<rparr>)),
      createError = (\<lambda>t c. Inr ()),
      nodeData = (\<lambda>d. 0),
      nodeView = (\<lambda>d. 0),
      requestAnimationFrame = (\<lambda>cb w. (Inr (), w))\<rparr>"

definition exWorld :: "nat list world" where
  "exWorld = \<lparr>isDirty = False, currentView = None, hostNodes = (\<lambda>i. None), ext = []\<rparr>"

definition exFactory :: "(nat list, component) action" where
  "exFactory w = (Inr (Instance 0), w)"

definition exType :: "nat list component_type" where
  "exType = \<lparr>ngComponentDef = \<lparr>tag = ''x-widget'', n = exFactory, rendererType = 0\<rparr>\<rparr>"

definition exOpts :: "nat list create_component_option_args" where
  "exOpts = \<lparr>rendererFactory = None, host = None, injector = None, features = None\<rparr>"

text \<open>A world in which instance 0 has been bootstrapped on the handle 7.\<close>

definition exBooted :: "bool \<Rightarrow> nat list world" where
  "exBooted dirty =
     \<lparr>isDirty = dirty, currentView = None,
      hostNodes = (\<lambda>i. if i = 0 then Some \<lparr>native = 7, data = Some 0, view = 0\<rparr> else None),
      ext = []\<rparr>"

text \<open>Application callbacks: one that logs a number, one that raises.\<close>

definition logs :: "nat \<Rightarrow> (nat list, unit) action" where
  "logs k w = (Inr (), w\<lparr>ext := ext w @ [k]\<rparr>)"

definition raises :: "nat \<Rightarrow> (nat list, unit) action" where
  "raises k w = (Inl (Thrown k), w)"

text \<open>A scheduler that only records that it was asked to schedule a callback.\<close>

definition exScheduler :: "nat \<Rightarrow> nat list scheduler" where
  "exScheduler k cb w = (Inr (), w\<lparr>ext := ext w @ [k]\<rparr>)"

text \<open>The same environment with a render pass that raises.\<close>

definition exFailK :: "nat list collaborators" where
  "exFailK = (exK True)\<lparr>renderComponentOrTemplate := (\<lambda>hn v c w. (Inl (Thrown 5), w))\<rparr>"

text \<open>
  A component type whose factory replaces the current view and then raises, and a world
  in which some outer view is current.
\<close>

definition exRaisingType :: "nat list component_type" where
  "exRaisingType =
     \<lparr>ngComponentDef =
        \<lparr>tag = ''x-widget'',
         n = (\<lambda>w. (Inl (Thrown 9), w\<lparr>currentView := None\<rparr>)),
         rendererType = 0\<rparr>\<rparr>"

definition exNested :: "nat list world" where
  "exNested = exWorld\<lparr>currentView := Some (createViewState 3 0 [])\<rparr>"

text \<open>The view handle \<open>createComponentRef\<close> builds for instance 0.\<close>

definition exHandle :: "nat list view_ref" where
  "exHandle =
     createViewRef (exK True) (js_bind (detectChanges (exK True)) (Instance 0) []) (Instance 0)"

text \<open>
  An environment whose render pass raises for instance 0 and renders every other
  instance, and a world with the flag set in which instances 0 and 1 are bootstrapped.
\<close>

definition exTwoK :: "nat list collaborators" where
  "exTwoK =
     (exK True)\<lparr>renderComponentOrTemplate :=
        (\<lambda>hn v c w. if c = Instance 0 then (Inl (Thrown 5), w)
                   else (Inr (), w\<lparr>ext := ext w @ [native hn]\<rparr>))\<rparr>"

definition exTwoBooted :: "nat list world" where
  "exTwoBooted =
     \<lparr>isDirty = True, currentView = None,
      hostNodes = (\<lambda>i. if i = 0 then Some \<lparr>native = 7, data = Some 0, view = 0\<rparr>
                       else if i = 1 then Some \<lparr>native = 8, data = Some 0, view = 0\<rparr>
                       else None),
      ext = []\<rparr>"

text \<open>
  An environment whose render pass attaches a back-reference to a child instance, the
  object 1, on the handle 8.
\<close>

definition exChildK :: "nat list collaborators" where
  "exChildK =
     (exK True)\<lparr>renderComponentOrTemplate :=
        (\<lambda>hn v c w.
           (Inr (), w\<lparr>hostNodes := (hostNodes w)(1 := Some \<lparr>native = 8, data = Some 0, view = 0\<rparr>),
                      ext := ext w @ [native hn]\<rparr>))\<rparr>"

subsection \<open>Reading a handle\<close>

text \<open>The callbacks a handle holds, in registration order (\<open>null\<close> holds none).\<close>

definition callbacks :: "'e view_ref \<Rightarrow> ('e, unit) action list" where
  "callbacks h = (case destroyFn h of None \<Rightarrow> [] | Some fs \<Rightarrow> fs)"

section \<open>Properties\<close>

subsection \<open>The concrete environment, evaluated\<close>

lemma exBooted_detectChanges:
  "detectChanges (exK dev) (Instance 0) (exBooted b) = (Inr (), exBooted False\<lparr>ext := [7]\<rparr>)"
  by (simp add: detectChanges_def exK_def exBooted_def assertNotNull_def ngHost_def)

lemma ex_renderComponent:
  "renderComponent (exK dev) exType exOpts exWorld =
     (Inr (Instance 0), exBooted False\<lparr>ext := [7]\<rparr>)"
  by (simp add: renderComponent_def exK_def exType_def exOpts_def exWorld_def hostOrTag_def
      enterView_def createViewState_def leaveView_def renderComponent_try_def hostElement_def
      directive_def store_def rootNode_def detectChanges_def assertNotNull_def ngHost_def
      locateHostElement_def exFactory_def exBooted_def fun_eq_iff)

lemma ex_getHostElement: "getHostElement (Instance 0) (exBooted b\<lparr>ext := l\<rparr>) = Inr 7"
  by (simp add: getHostElement_def ngHost_def exBooted_def)

lemma ex_createComponentRef:
  "createComponentRef (exK True) exType exOpts exWorld =
     (Inr \<lparr>location = 7, cr_injector = NULL_INJECTOR, cr_instance = Instance 0,
           hostView = exHandle, changeDetectorRef = exHandle, componentType = exType\<rparr>,
      exBooted False\<lparr>ext := [7]\<rparr>)"
proof -
  have inj: "injector exOpts = None" by (simp add: exOpts_def)
  show ?thesis
    by (simp add: createComponentRef_def ex_renderComponent ex_getHostElement exHandle_def inj
        Let_def)
qed

subsection \<open>The bound detection function of a view handle\<close>

lemma js_bind_this_only: "js_bind f thisArg [] [] = f Nullish"
  by (simp add: js_bind_def)


lemma detectChanges_Nullish:
  "detectChanges K Nullish w =
     (Inl (if ngDevMode K then AssertionError ''component'' else TypeError ''NG_HOST_SYMBOL''), w)"
  by (simp add: detectChanges_def assertNotNull_def ngHost_def)

text \<open>
  C1. The claim: the \<open>detectChanges()\<close> of the view handle \<open>createComponentRef\<close> returns is
  bound to the bootstrapped instance and behaves as \<open>detectChanges(instance)\<close>. The code
  binds with \<open>detectChanges.bind(component)\<close>, which makes the instance \<open>this\<close> and leaves
  the parameter unbound (\<open>markDirty\<close> binds with \<open>detectChanges.bind(null, component)\<close>). So
  for every handle \<open>createComponentRef\<close> returns, in every world, \<open>hostView.detectChanges()\<close>
  is \<open>detectChanges(undefined)\<close>: it raises (the assertion in a diagnostics build, the
  engine's TypeError otherwise), runs no render pass and leaves the world as it is.
\<close>

theorem hostView_detectChanges_unbound:
  "createComponentRef K ctype opts w = (Inr ref, w') \<Longrightarrow>
     detectChangesFn (hostView ref) [] w'' = detectChanges K Nullish w'' \<and>
     detectChangesFn (hostView ref) [] w'' =
       (Inl (if ngDevMode K then AssertionError ''component'' else TypeError ''NG_HOST_SYMBOL''),
        w'')"
  by (auto simp: createComponentRef_def Let_def createViewRef_def addDestroyable_def
      js_bind_this_only detectChanges_Nullish split: prod.splits sum.splits)

theorem hostView_detectChanges_unbound_witness:
  "createComponentRef (exK True) exType exOpts exWorld =
     (Inr \<lparr>location = 7, cr_injector = NULL_INJECTOR, cr_instance = Instance 0,
           hostView = exHandle, changeDetectorRef = exHandle, componentType = exType\<rparr>,
      exBooted False\<lparr>ext := [7]\<rparr>) \<and>
   detectChangesFn exHandle [] (exBooted False\<lparr>ext := [7]\<rparr>) =
     (Inl (AssertionError ''component''), exBooted False\<lparr>ext := [7]\<rparr>) \<and>
   detectChanges (exK True) (Instance 0) (exBooted False\<lparr>ext := [7]\<rparr>) =
     (Inr (), exBooted False\<lparr>ext := [7, 7]\<rparr>)"
proof -
  have run: "detectChanges (exK True) (Instance 0) (exBooted False\<lparr>ext := [7]\<rparr>) =
      (Inr (), exBooted False\<lparr>ext := [7, 7]\<rparr>)"
    by (simp add: detectChanges_def exK_def exBooted_def assertNotNull_def ngHost_def)
  have dev: "ngDevMode (exK True)" by (simp add: exK_def)
  from hostView_detectChanges_unbound [OF ex_createComponentRef, THEN conjunct2,
      of "exBooted False\<lparr>ext := [7]\<rparr>"]
  have "detectChangesFn exHandle [] (exBooted False\<lparr>ext := [7]\<rparr>) =
      (Inl (AssertionError ''component''), exBooted False\<lparr>ext := [7]\<rparr>)"
    using dev by simp
  with run ex_createComponentRef show ?thesis by simp
qed

subsection \<open>The render context\<close>

lemma forEach_currentView:
  "\<forall>f \<in> set fs. \<forall>w. currentView (snd (f w)) = currentView w \<Longrightarrow>
     currentView (snd (forEach fs w)) = currentView w"
proof (induction fs arbitrary: w)
  case Nil
  then show ?case by simp
next
  case (Cons f fs)
  from Cons.prems have step: "currentView (snd (f w)) = currentView w" by simp
  from Cons.prems have rest: "\<forall>g \<in> set fs. \<forall>w. currentView (snd (g w)) = currentView w"
    by simp
  show ?case
  proof (cases "f w")
    case (Pair r w1)
    with step have w1: "currentView w1 = currentView w" by simp
    show ?thesis
    proof (cases r)
      case (Inl e)
      with Pair w1 show ?thesis by simp
    next
      case (Inr u)
      with Pair w1 Cons.IH [OF rest, of w1] show ?thesis by simp
    qed
  qed
qed

lemma detectChanges_currentView:
  assumes frame:
    "\<forall>hn v c w. currentView (snd (renderComponentOrTemplate K hn v c w)) = currentView w"
  shows "currentView (snd (detectChanges K c w)) = currentView w"
proof -
  have r: "currentView w1 = currentView w"
    if "renderComponentOrTemplate K hn (view hn) c w = (r, w1)" for hn r w1
  proof -
    from that have "snd (renderComponentOrTemplate K hn (view hn) c w) = w1" by simp
    with frame show ?thesis by metis
  qed
  show ?thesis
    unfolding detectChanges_def
    by (auto split: sum.splits option.splits prod.splits dest: r)
qed

text \<open>
  C2. \<open>renderComponent\<close> leaves the render context that was current before the call, on
  every exit path: when the host cannot be located or the renderer cannot be created
  (nothing was entered), when \<open>hostElement\<close>, the factory or \<open>directive\<close> raises inside the
  \<open>try\<close> block (the \<open>finally\<close> block leaves with the value \<open>enterView\<close> returned, whatever the
  block did to the current view), when a feature hook or the first detection pass raises,
  and when it returns the instance. The factory is arbitrary; the feature hooks and the
  external render pass, which run after the \<open>finally\<close> block, are taken to leave the
  current view as they found it.
\<close>

theorem renderComponent_restores_view:
  assumes feat: "\<forall>feature \<in> set (case features opts of None \<Rightarrow> [] | Some fs \<Rightarrow> fs).
                   \<forall>c d w. currentView (snd (feature c d w)) = currentView w"
      and pass: "\<forall>hn v c w. currentView (snd (renderComponentOrTemplate K hn v c w)) = currentView w"
  shows "currentView (snd (renderComponent K ctype opts w)) = currentView w"
proof -
  let ?rf = "case rendererFactory opts of None \<Rightarrow> domRendererFactory3 K | Some f \<Rightarrow> f"
  let ?def = "ngComponentDef ctype"
  show ?thesis
  proof (cases "locateHostElement K ?rf (hostOrTag (host opts) (tag ?def)) w")
    case (Inl e)
    then show ?thesis by (simp add: renderComponent_def)
  next
    case located: (Inr hostNode)
    show ?thesis
    proof (cases "createRenderer ?rf hostNode (rendererType ?def)")
      case (Inl e)
      with located show ?thesis by (simp add: renderComponent_def)
    next
      case renderer: (Inr r)
      let ?w1 = "w\<lparr>currentView := Some (createViewState (- 1) r [])\<rparr>"
      obtain res w2 where body: "renderComponent_try K hostNode ?def ?w1 = (res, w2)"
        by (cases "renderComponent_try K hostNode ?def ?w1") auto
      let ?w3 = "leaveView (currentView w) w2"
      have w3: "currentView ?w3 = currentView w" by (simp add: leaveView_def)
      show ?thesis
      proof (cases res)
        case (Inl e)
        with located renderer body w3 show ?thesis
          by (simp add: renderComponent_def enterView_def)
      next
        case made: (Inr c)
        let ?hooks = "map (\<lambda>feature. feature c ?def)
                        (case features opts of None \<Rightarrow> [] | Some fs \<Rightarrow> fs)"
        from feat have "\<forall>f \<in> set ?hooks. \<forall>w. currentView (snd (f w)) = currentView w"
          by auto
        then have hooks: "currentView (snd (forEach ?hooks ?w3)) = currentView w"
          using forEach_currentView [of ?hooks ?w3] w3 by simp
        obtain r4 w4 where fe: "forEach ?hooks ?w3 = (r4, w4)"
          by (cases "forEach ?hooks ?w3") auto
        with hooks have w4: "currentView w4 = currentView w" by simp
        have dc: "currentView (snd (detectChanges K c w4)) = currentView w"
          using detectChanges_currentView [OF pass, of c w4] w4 by simp
        obtain r5 w5 where d5: "detectChanges K c w4 = (r5, w5)"
          by (cases "detectChanges K c w4") auto
        with dc have w5: "currentView w5 = currentView w" by simp
        from located renderer body made fe d5 w4 w5 show ?thesis
          by (cases r4; cases r5) (simp_all add: renderComponent_def enterView_def Let_def)
      qed
    qed
  qed
qed

theorem renderComponent_restores_view_witness:
  "currentView exNested = Some (createViewState 3 0 []) \<and>
   fst (renderComponent (exK True) exRaisingType exOpts exNested) = Inl (Thrown 9) \<and>
   currentView (snd (renderComponent (exK True) exRaisingType exOpts exNested)) =
     Some (createViewState 3 0 [])"
proof -
  have feat: "\<forall>feature \<in> set (case features exOpts of None \<Rightarrow> [] | Some fs \<Rightarrow> fs).
                \<forall>c d (w :: nat list world). currentView (snd (feature c d w)) = currentView w"
    by (simp add: exOpts_def)
  have pass: "\<forall>hn v c w.
      currentView (snd (renderComponentOrTemplate (exK True) hn v c w)) = currentView w"
    by (simp add: exK_def)
  have raised: "fst (renderComponent (exK True) exRaisingType exOpts exNested) = Inl (Thrown 9)"
    by (simp add: renderComponent_def exK_def exRaisingType_def exOpts_def exNested_def
        exWorld_def hostOrTag_def enterView_def createViewState_def leaveView_def
        renderComponent_try_def hostElement_def locateHostElement_def)
  have "currentView exNested = Some (createViewState 3 0 [])"
    by (simp add: exNested_def)
  with raised renderComponent_restores_view [OF feat pass, of exRaisingType exNested]
  show ?thesis by simp
qed

subsection \<open>The dirty flag\<close>

lemma markDirty_when_dirty:
  "isDirty w \<Longrightarrow>
     markDirty K c so w =
       (if ngDevMode K \<and> c = Nullish then Inl (AssertionError ''component'') else Inr (), w)"
  by (simp add: markDirty_def assertNotNull_def)

lemma markDirty_calls_when_dirty:
  "isDirty w \<Longrightarrow>
     markDirty_calls K cs w =
       (map (\<lambda>(c, so). if ngDevMode K \<and> c = Nullish
                        then Inl (AssertionError ''component'') else Inr ()) cs, w)"
  by (induction cs) (auto simp: markDirty_when_dirty)



text \<open>
  C4. Whenever \<open>detectChanges\<close> returns normally, the global dirty flag is false in the
  world it leaves, whatever the flag was before and whoever made the call (the scheduled
  closure is \<open>detectChanges\<close> itself).
\<close>

theorem detectChanges_clears_isDirty:
  "detectChanges K component w = (Inr u, w') \<Longrightarrow> \<not> isDirty w'"
  unfolding detectChanges_def
  by (auto split: sum.splits option.splits if_splits prod.splits)

theorem detectChanges_clears_isDirty_witness:
  "isDirty (exBooted True) \<and>
   fst (detectChanges (exK True) (Instance 0) (exBooted True)) = Inr () \<and>
   \<not> isDirty (snd (detectChanges (exK True) (Instance 0) (exBooted True)))"
  using detectChanges_clears_isDirty [OF exBooted_detectChanges [of True True]]
  by (simp add: exBooted_detectChanges) (simp add: exBooted_def)

text \<open>
  C6, as amended. When the external render pass raises inside \<open>detectChanges\<close> (the
  instance resolves to a host node and the diagnostics checks pass), \<open>detectChanges\<close> raises
  the same error and leaves exactly the world the render pass left: it does not clear the
  flag. With a render pass that does not touch the flag itself, the flag is what it was
  before the call. And in every world in which the flag is set, so for as long as it stays
  set after a failed pass, every sequence of \<open>markDirty\<close> calls leaves the world as it is
  and invokes no scheduler. The claim as stated says no pass is ever scheduled again; that
  fails once \<open>detectChanges\<close> completes on any instance, since it clears the one flag.
\<close>

theorem failed_pass_leaves_isDirty:
  assumes host: "hostNodes w i = Some hn"
      and data: "ngDevMode K \<longrightarrow> data hn \<noteq> None"
      and fails: "renderComponentOrTemplate K hn (view hn) (Instance i) w = (Inl e, w')"
      and frame: "isDirty w' = isDirty w"
  shows "detectChanges K (Instance i) w = (Inl e, w') \<and>
         isDirty (snd (detectChanges K (Instance i) w)) = isDirty w \<and>
         (\<forall>w'' cs. isDirty w'' \<longrightarrow>
            markDirty_calls K cs w'' =
              (map (\<lambda>(c', so'). if ngDevMode K \<and> c' = Nullish
                                 then Inl (AssertionError ''component'') else Inr ()) cs, w''))"
proof -
  have dc: "detectChanges K (Instance i) w = (Inl e, w')"
    using host data fails by (auto simp: detectChanges_def assertNotNull_def ngHost_def)
  show ?thesis
    using dc frame by (simp add: markDirty_calls_when_dirty)
qed

theorem failed_pass_leaves_isDirty_witness:
  "detectChanges exFailK (Instance 0) (exBooted True) = (Inl (Thrown 5), exBooted True) \<and>
   isDirty (exBooted True) \<and>
   markDirty_calls exFailK [(Instance 0, Some (exScheduler 100)), (Instance 1, None)]
     (exBooted True) = ([Inr (), Inr ()], exBooted True)"
proof -
  have host: "hostNodes (exBooted True) 0 = Some \<lparr>native = 7, data = Some 0, view = 0\<rparr>"
    by (simp add: exBooted_def)
  have data: "ngDevMode exFailK \<longrightarrow> data \<lparr>native = 7, data = Some 0, view = 0\<rparr> \<noteq> None"
    by simp
  have fails: "renderComponentOrTemplate exFailK \<lparr>native = 7, data = Some 0, view = 0\<rparr>
      (view \<lparr>native = 7, data = Some 0, view = 0\<rparr>) (Instance 0) (exBooted True)
        = (Inl (Thrown 5), exBooted True)"
    by (simp add: exFailK_def)
  have frame: "isDirty (exBooted True) = isDirty (exBooted True)" by simp
  have dirty: "isDirty (exBooted True)" by (simp add: exBooted_def)
  note t = failed_pass_leaves_isDirty [OF host data fails frame]
  from t have "\<forall>w'' cs. isDirty w'' \<longrightarrow> markDirty_calls exFailK cs w'' =
      (map (\<lambda>(c', so'). if ngDevMode exFailK \<and> c' = Nullish
                             then Inl (AssertionError ''component'') else Inr ()) cs, w'')"
    by blast
  then have "isDirty (exBooted True) \<longrightarrow>
      markDirty_calls exFailK [(Instance 0, Some (exScheduler 100)), (Instance 1, None)]
      (exBooted True) =
      (map (\<lambda>(c', so'). if ngDevMode exFailK \<and> c' = Nullish
                             then Inl (AssertionError ''component'') else Inr ())
         [(Instance 0, Some (exScheduler 100)), (Instance 1, None)], exBooted True)"
    by blast
  with dirty have calls:
    "markDirty_calls exFailK [(Instance 0, Some (exScheduler 100)), (Instance 1, None)]
      (exBooted True) = ([Inr (), Inr ()], exBooted True)"
    by (simp only: list.map prod.case component.distinct simp_thms if_False)
  from t have "detectChanges exFailK (Instance 0) (exBooted True) =
      (Inl (Thrown 5), exBooted True)"
    by (rule conjunct1)
  with dirty calls show ?thesis by (simp only: simp_thms)
qed

theorem markDirty_after_other_pass_counterexample:
  "isDirty exTwoBooted \<and>
   detectChanges exTwoK (Instance 0) exTwoBooted = (Inl (Thrown 5), exTwoBooted) \<and>
   fst (detectChanges exTwoK (Instance 1) exTwoBooted) = Inr () \<and>
   \<not> isDirty (snd (detectChanges exTwoK (Instance 1) exTwoBooted)) \<and>
   ext (snd (detectChanges exTwoK (Instance 1) exTwoBooted)) = [8] \<and>
   fst (markDirty exTwoK (Instance 0) (Some (exScheduler 100))
          (snd (detectChanges exTwoK (Instance 1) exTwoBooted))) = Inr () \<and>
   ext (snd (markDirty exTwoK (Instance 0) (Some (exScheduler 100))
          (snd (detectChanges exTwoK (Instance 1) exTwoBooted)))) = [8, 100]"
  by (simp add: detectChanges_def markDirty_def exTwoK_def exK_def exTwoBooted_def
      assertNotNull_def ngHost_def exScheduler_def)

subsection \<open>The destroy lifecycle\<close>

lemma forEach_normal:
  "\<forall>f \<in> set fs. \<forall>w. fst (f w) = Inr () \<Longrightarrow>
     forEach fs w = (Inr (), fold (\<lambda>f w. snd (f w)) fs w)"
proof (induction fs arbitrary: w)
  case Nil
  then show ?case by simp
next
  case (Cons f fs)
  from Cons.prems have "fst (f w) = Inr ()" by simp
  then obtain w1 where fw: "f w = (Inr (), w1)" by (cases "f w") auto
  with Cons show ?case by simp
qed

lemma register_calls:
  "handle_calls (map OnDestroy fs @ cs) h w =
     handle_calls cs
       (h\<lparr>destroyFn := (if fs = [] then destroyFn h else Some (callbacks h @ fs))\<rparr>) w"
proof (induction fs arbitrary: h)
  case Nil
  then show ?case by simp
next
  case (Cons f fs)
  show ?case
    by (simp add: Cons.IH onDestroy_def Let_def callbacks_def split: option.splits)
qed

lemma destroy_normal:
  "\<forall>f \<in> set (callbacks h). \<forall>w. fst (f w) = Inr () \<Longrightarrow>
     destroy h w =
       (Inr (), h\<lparr>destroyed := True\<rparr>, fold (\<lambda>f w. snd (f w)) (callbacks h) w)"
  by (cases "destroyFn h") (simp_all add: destroy_def callbacks_def forEach_normal)

lemma destroy_calls_normal:
  "\<forall>f \<in> set (callbacks h). \<forall>w. fst (f w) = Inr () \<Longrightarrow>
     handle_calls (replicate k Destroy) h w =
       (replicate k (Inr ()),
        (if k = 0 then h else h\<lparr>destroyed := True\<rparr>),
        ((\<lambda>w. fold (\<lambda>f w. snd (f w)) (callbacks h) w) ^^ k) w)"
proof (induction k arbitrary: h w)
  case 0
  then show ?case by simp
next
  case (Suc k)
  have cb: "callbacks (h\<lparr>destroyed := True\<rparr>) = callbacks h" by (simp add: callbacks_def)
  from Suc.prems
  have p: "\<forall>f \<in> set (callbacks (h\<lparr>destroyed := True\<rparr>)). \<forall>w. fst (f w) = Inr ()"
    by (simp add: cb)
  show ?case
    by (simp add: destroy_normal [OF Suc.prems] Suc.IH [OF p] cb funpow_swap1
        del: funpow.simps)
       (simp add: funpow_swap1)
qed

text \<open>
  C5, as amended. Take a fresh view handle, register the callbacks \<open>fs\<close> with \<open>onDestroy\<close>
  in that order, then call \<open>destroy()\<close> \<open>k\<close> times. If every registered callback returns
  normally, every \<open>destroy()\<close> returns normally, the world has gone through the callbacks
  one after the other in registration order, once per \<open>destroy()\<close> call and so \<open>k\<close> times
  over, the callbacks stay registered, and \<open>destroyed\<close> is true after each call (\<open>k\<close> is
  arbitrary). The claim as stated has no such condition and fails when a callback raises.
\<close>

theorem destroy_runs_callbacks_in_order:
  assumes normal: "\<forall>f \<in> set fs. \<forall>w. fst (f w) = Inr ()"
  shows "handle_calls (map OnDestroy fs @ replicate k Destroy) (addDestroyable obj context) w =
           (replicate k (Inr ()),
            (addDestroyable obj context)
              \<lparr>destroyed := 0 < k, destroyFn := (if fs = [] then None else Some fs)\<rparr>,
            ((\<lambda>w. fold (\<lambda>f w. snd (f w)) fs w) ^^ k) w)"
proof -
  let ?h = "(addDestroyable obj context)\<lparr>destroyFn := (if fs = [] then None else Some fs)\<rparr>"
  have cb: "callbacks ?h = fs" by (simp add: callbacks_def)
  have h: "handle_calls (map OnDestroy fs @ replicate k Destroy) (addDestroyable obj context) w =
        handle_calls (replicate k Destroy) ?h w"
    by (simp add: register_calls callbacks_def addDestroyable_def)
  from normal have p: "\<forall>f \<in> set (callbacks ?h). \<forall>w. fst (f w) = Inr ()" by (simp only: cb)
  show ?thesis
    unfolding h destroy_calls_normal [OF p] cb
    by (cases k) (simp_all add: addDestroyable_def)
qed

theorem destroy_runs_callbacks_in_order_witness:
  "fst (handle_calls [OnDestroy (logs 1), OnDestroy (logs 2), Destroy, Destroy]
          exHandle exWorld) = [Inr (), Inr ()] \<and>
   destroyed (fst (snd (handle_calls [OnDestroy (logs 1), OnDestroy (logs 2), Destroy, Destroy]
          exHandle exWorld))) \<and>
   ext (snd (snd (handle_calls [OnDestroy (logs 1), OnDestroy (logs 2), Destroy, Destroy]
          exHandle exWorld))) = [1, 2, 1, 2]"
proof -
  have normal: "\<forall>f \<in> set [logs 1, logs 2]. \<forall>w. fst (f w) = Inr ()"
    by (simp add: logs_def)
  have ops: "[OnDestroy (logs 1), OnDestroy (logs 2), Destroy, Destroy] =
      map OnDestroy [logs 1, logs 2] @ replicate 2 Destroy"
    by (simp add: numeral_2_eq_2)
  show ?thesis
    unfolding ops exHandle_def createViewRef_def
    using destroy_runs_callbacks_in_order [OF normal, of 2 _ "Instance 0" exWorld]
    by (simp add: numeral_2_eq_2 logs_def exWorld_def)
qed

theorem destroy_raising_callback_counterexample:
  "fst (handle_calls [OnDestroy (raises 1), OnDestroy (logs 2), Destroy] exHandle exWorld) =
     [Inl (Thrown 1)] \<and>
   \<not> destroyed (fst (snd (handle_calls [OnDestroy (raises 1), OnDestroy (logs 2), Destroy]
                             exHandle exWorld))) \<and>
   ext (snd (snd (handle_calls [OnDestroy (raises 1), OnDestroy (logs 2), Destroy]
                    exHandle exWorld))) = []"
  by (simp add: exHandle_def createViewRef_def addDestroyable_def onDestroy_def destroy_def
      raises_def exWorld_def)

text \<open>
  C8. After a \<open>destroy()\<close> call, however it ended, any number of \<open>onDestroy\<close> registrations
  can follow: they raise nothing, invoke nothing (the world stays the one \<open>destroy()\<close>
  left), leave \<open>destroyed\<close> as it is, and append the callbacks to the registered ones, where
  only a further \<open>destroy()\<close> runs them.
\<close>

theorem onDestroy_after_destroy_invokes_nothing:
  "fst (handle_calls (Destroy # map OnDestroy fs) h w) = [fst (destroy h w)] \<and>
   snd (snd (handle_calls (Destroy # map OnDestroy fs) h w)) = snd (snd (destroy h w)) \<and>
   destroyed (fst (snd (handle_calls (Destroy # map OnDestroy fs) h w))) =
     destroyed (fst (snd (destroy h w))) \<and>
   callbacks (fst (snd (handle_calls (Destroy # map OnDestroy fs) h w))) = callbacks h @ fs"
proof -
  obtain r h1 w1 where d: "destroy h w = (r, h1, w1)" by (cases "destroy h w") auto
  have reg: "handle_calls (map OnDestroy fs) h1 w1 =
      ([], h1\<lparr>destroyFn := (if fs = [] then destroyFn h1 else Some (callbacks h1 @ fs))\<rparr>, w1)"
    using register_calls [of fs "[]" h1 w1] by simp
  have same: "callbacks h1 = callbacks h"
    using d by (auto simp: destroy_def callbacks_def split: prod.splits sum.splits)
  show ?thesis
    by (simp add: d reg same) (simp add: callbacks_def)
qed

subsection \<open>The host element\<close>

text \<open>
  C7, as amended. For every value that was never bootstrapped, \<open>getHostElement\<close> fails, in
  every build, with the engine's TypeError for reading a property of \<open>null\<close> or
  \<open>undefined\<close>: of the instance when it is null, of the missing host node otherwise. It
  never succeeds, and it has no diagnostics check of its own, so the failure is not the
  one the precondition of \<open>detectChanges\<close> raises.
\<close>

theorem getHostElement_not_bootstrapped:
  "(case c of Nullish \<Rightarrow> True | Instance i \<Rightarrow> hostNodes w i = None) \<Longrightarrow>
     getHostElement c w =
       Inl (TypeError (if c = Nullish then ''NG_HOST_SYMBOL'' else ''native''))"
  by (cases c) (simp_all add: getHostElement_def ngHost_def)

theorem getHostElement_not_bootstrapped_witness:
  "hostNodes exWorld 0 = None \<and>
   getHostElement (Instance 0) exWorld = Inl (TypeError ''native'')"
proof -
  have h: "(case Instance 0 of Nullish \<Rightarrow> True | Instance i \<Rightarrow> hostNodes exWorld i = None)"
    by (simp add: exWorld_def)
  show ?thesis
    using getHostElement_not_bootstrapped [OF h] by (simp add: exWorld_def)
qed

theorem getHostElement_diagnostic_counterexample:
  "ngDevMode (exK True) \<and>
   hostNodes exWorld 0 = None \<and>
   getHostElement (Instance 0) exWorld = Inl (TypeError ''native'') \<and>
   getHostElement Nullish exWorld = Inl (TypeError ''NG_HOST_SYMBOL'') \<and>
   fst (detectChanges (exK True) Nullish exWorld) = Inl (AssertionError ''component'')"
  by (simp add: getHostElement_def ngHost_def exWorld_def exK_def detectChanges_def
      assertNotNull_def)

lemma forEach_ngHost:
  "\<forall>f \<in> set fs. \<forall>w. ngHost c (snd (f w)) = ngHost c w \<Longrightarrow>
     ngHost c (snd (forEach fs w)) = ngHost c w"
proof (induction fs arbitrary: w)
  case Nil
  then show ?case by simp
next
  case (Cons f fs)
  from Cons.prems have step: "ngHost c (snd (f w)) = ngHost c w" by simp
  from Cons.prems have rest: "\<forall>g \<in> set fs. \<forall>w. ngHost c (snd (g w)) = ngHost c w"
    by simp
  show ?case
  proof (cases "f w")
    case (Pair r w1)
    with step have w1: "ngHost c w1 = ngHost c w" by simp
    show ?thesis
    proof (cases r)
      case (Inl e)
      with Pair w1 show ?thesis by simp
    next
      case (Inr u)
      with Pair w1 Cons.IH [OF rest, of w1] show ?thesis by simp
    qed
  qed
qed

lemma detectChanges_ngHost:
  assumes frame:
    "\<forall>hn v w. ngHost c (snd (renderComponentOrTemplate K hn v c w)) = ngHost c w"
  shows "ngHost c (snd (detectChanges K c w)) = ngHost c w"
proof -
  have r: "ngHost c w1 = ngHost c w"
    if "renderComponentOrTemplate K hn (view hn) c w = (r, w1)" for hn r w1
  proof -
    from that have "snd (renderComponentOrTemplate K hn (view hn) c w) = w1" by simp
    with frame show ?thesis by metis
  qed
  have flag: "ngHost c (w1\<lparr>isDirty := False\<rparr>) = ngHost c w1" for w1 :: "'a world"
    by (cases c) (simp_all add: ngHost_def)
  show ?thesis
    unfolding detectChanges_def
    by (auto simp: flag split: sum.splits option.splits prod.splits dest: r)
qed

lemma rootNode_store:
  "rootNode (cur\<lparr>viewData := store 0 (ElementEntry hn) (viewData cur)\<rparr>) = Some hn"
  by (cases "viewData cur") (simp_all add: rootNode_def store_def)

lemma try_attaches:
  assumes body: "renderComponent_try K h def w1 = (Inr c, w2)"
      and factory: "\<forall>w. currentView (snd (n def w)) = currentView w"
  shows "\<exists>i hn. c = Instance i \<and> hostNodes w2 i = Some hn \<and> native hn = h"
proof -
  from body obtain cur where cur: "currentView w1 = Some cur"
    by (cases "currentView w1") (auto simp: renderComponent_try_def hostElement_def)
  let ?node = "\<lparr>native = h, data = Some (nodeData K def), view = nodeView K def\<rparr>"
  let ?cur' = "cur\<lparr>viewData := store 0 (ElementEntry ?node) (viewData cur)\<rparr>"
  let ?wa = "w1\<lparr>currentView := Some ?cur'\<rparr>"
  have he: "hostElement K h def w1 = (Inr (), ?wa)"
    using cur by (simp add: hostElement_def)
  obtain rb wb where fb: "n def ?wa = (rb, wb)" by (cases "n def ?wa") auto
  from factory have "currentView (snd (n def ?wa)) = currentView ?wa" by (rule spec)
  with fb have wb: "currentView wb = Some ?cur'" by simp
  from body he fb obtain inst
    where rb: "rb = Inr inst" and dir: "directive 1 inst def wb = (Inr c, w2)"
    by (cases rb) (auto simp: renderComponent_try_def)
  from dir wb obtain i where "c = Instance i" and "hostNodes w2 i = rootNode ?cur'"
    by (cases inst) (auto simp: directive_def)
  then show ?thesis by (simp add: rootNode_store)
qed

lemma exChild_renderComponent:
  "fst (renderComponent exChildK exType exOpts exWorld) = Inr (Instance 0) \<and>
   hostNodes (snd (renderComponent exChildK exType exOpts exWorld)) 1 =
     Some \<lparr>native = 8, data = Some 0, view = 0\<rparr>"
  by (simp add: renderComponent_def exChildK_def exK_def exType_def exOpts_def exWorld_def
      hostOrTag_def enterView_def createViewState_def leaveView_def renderComponent_try_def
      hostElement_def directive_def store_def rootNode_def detectChanges_def assertNotNull_def
      ngHost_def locateHostElement_def exFactory_def)

text \<open>
  C9. When \<open>renderComponent\<close> returns an instance, \<open>getHostElement\<close> of that instance in the
  world it leaves returns the handle the host locator resolved for \<open>opts.host ||
  componentDef.tag\<close> during that call, which is the host option itself when a native handle
  was passed in. The factory is taken to leave the current view as it found it, and the
  feature hooks and the render pass of this bootstrap to leave the back-reference of the
  bootstrapped instance alone; they may attach back-references to other objects.
\<close>

theorem getHostElement_returns_bootstrap_host:
  assumes ok: "renderComponent K ctype opts w = (Inr c, w')"
      and factory: "\<forall>w. currentView (snd (n (ngComponentDef ctype) w)) = currentView w"
      and feat: "\<forall>feature \<in> set (case features opts of None \<Rightarrow> [] | Some fs \<Rightarrow> fs).
                   \<forall>w. ngHost c (snd (feature c (ngComponentDef ctype) w)) = ngHost c w"
      and pass: "\<forall>hn v w. ngHost c (snd (renderComponentOrTemplate K hn v c w)) = ngHost c w"
  shows "getHostElement c w' =
           locateHostElement K
             (case rendererFactory opts of None \<Rightarrow> domRendererFactory3 K | Some f \<Rightarrow> f)
             (hostOrTag (host opts) (tag (ngComponentDef ctype))) w \<and>
         (\<exists>h. getHostElement c w' = Inr h) \<and>
         (\<forall>e. host opts = Some (HostElement e) \<longrightarrow> getHostElement c w' = Inr e)"
proof -
  let ?rf = "case rendererFactory opts of None \<Rightarrow> domRendererFactory3 K | Some f \<Rightarrow> f"
  let ?def = "ngComponentDef ctype"
  from ok obtain h
    where located: "locateHostElement K ?rf (hostOrTag (host opts) (tag ?def)) w = Inr h"
    by (cases "locateHostElement K ?rf (hostOrTag (host opts) (tag ?def)) w")
       (auto simp: renderComponent_def)
  from ok located obtain r where renderer: "createRenderer ?rf h (rendererType ?def) = Inr r"
    by (cases "createRenderer ?rf h (rendererType ?def)") (auto simp: renderComponent_def)
  let ?w1 = "w\<lparr>currentView := Some (createViewState (- 1) r [])\<rparr>"
  obtain res w2 where body: "renderComponent_try K h ?def ?w1 = (res, w2)"
    by (cases "renderComponent_try K h ?def ?w1") auto
  let ?w3 = "leaveView (currentView w) w2"
  let ?hooks = "\<lambda>c. map (\<lambda>feature. feature c ?def)
                      (case features opts of None \<Rightarrow> [] | Some fs \<Rightarrow> fs)"
  from ok located renderer body obtain c0 where made: "res = Inr c0"
    by (cases res) (auto simp: renderComponent_def enterView_def Let_def)
  obtain r4 w4 where fe: "forEach (?hooks c0) ?w3 = (r4, w4)"
    by (cases "forEach (?hooks c0) ?w3") auto
  obtain r5 w5 where d5: "detectChanges K c0 w4 = (r5, w5)"
    by (cases "detectChanges K c0 w4") auto
  from ok located renderer body made fe d5 have same: "c0 = c" and final: "w5 = w'"
    by (cases r4; cases r5; simp add: renderComponent_def enterView_def Let_def)+
  from body made same try_attaches [OF _ factory, of K h ?w1 c w2]
  obtain i hn
    where inst: "c = Instance i" and attached: "hostNodes w2 i = Some hn"
      and nat: "native hn = h"
    by auto
  from inst attached have w3: "ngHost c ?w3 = Inr (Some hn)"
    by (simp add: ngHost_def leaveView_def)
  from feat have "\<forall>f \<in> set (?hooks c). \<forall>w. ngHost c (snd (f w)) = ngHost c w" by auto
  then have "ngHost c (snd (forEach (?hooks c) ?w3)) = ngHost c ?w3"
    by (rule forEach_ngHost)
  with fe same w3 have w4: "ngHost c w4 = Inr (Some hn)" by simp
  from detectChanges_ngHost [OF pass, of w4] d5 same w4 final
  have "ngHost c w' = Inr (Some hn)" by simp
  with nat have got: "getHostElement c w' = Inr h"
    by (simp add: getHostElement_def)
  have direct: "\<forall>e. host opts = Some (HostElement e) \<longrightarrow> h = e"
    using located by (auto simp: hostOrTag_def locateHostElement_def)
  from got located direct show ?thesis by simp
qed

theorem getHostElement_returns_bootstrap_host_witness:
  "fst (renderComponent exChildK exType exOpts exWorld) = Inr (Instance 0) \<and>
   hostNodes exWorld 1 = None \<and>
   hostNodes (snd (renderComponent exChildK exType exOpts exWorld)) 1 =
     Some \<lparr>native = 8, data = Some 0, view = 0\<rparr> \<and>
   querySelector exChildK (domRendererFactory3 exChildK) ''x-widget'' exWorld = Some 7 \<and>
   getHostElement (Instance 0) (snd (renderComponent exChildK exType exOpts exWorld)) = Inr 7"
proof -
  have ok: "renderComponent exChildK exType exOpts exWorld =
      (Inr (Instance 0), snd (renderComponent exChildK exType exOpts exWorld))"
    using exChild_renderComponent
    by (cases "renderComponent exChildK exType exOpts exWorld") simp
  have factory: "\<forall>w. currentView (snd (n (ngComponentDef exType) w)) = currentView w"
    by (simp add: exType_def exFactory_def)
  have feat: "\<forall>feature \<in> set (case features exOpts of None \<Rightarrow> [] | Some fs \<Rightarrow> fs).
                \<forall>w :: nat list world.
                  ngHost (Instance 0) (snd (feature (Instance 0) (ngComponentDef exType) w)) =
                  ngHost (Instance 0) w"
    by (simp add: exOpts_def)
  have pass: "\<forall>hn v w.
      ngHost (Instance 0) (snd (renderComponentOrTemplate exChildK hn v (Instance 0) w)) =
      ngHost (Instance 0) w"
    by (simp add: exChildK_def ngHost_def)
  have loc: "locateHostElement exChildK
      (case rendererFactory exOpts of None \<Rightarrow> domRendererFactory3 exChildK | Some f \<Rightarrow> f)
      (hostOrTag (host exOpts) (tag (ngComponentDef exType))) exWorld = Inr 7"
    by (simp add: locateHostElement_def hostOrTag_def exOpts_def exType_def exChildK_def exK_def)
  have q: "querySelector exChildK (domRendererFactory3 exChildK) ''x-widget'' exWorld = Some 7"
    by (simp add: exChildK_def exK_def)
  have none: "hostNodes exWorld 1 = None" by (simp add: exWorld_def)
  from getHostElement_returns_bootstrap_host [OF ok factory feat pass, THEN conjunct1]
  have "getHostElement (Instance 0) (snd (renderComponent exChildK exType exOpts exWorld)) = Inr 7"
    by (simp only: loc)
  with q none exChild_renderComponent show ?thesis by simp
qed

subsection \<open>The unimplemented control points\<close>

text \<open>
  C10. In a diagnostics build each of the four control points of a view handle,
  \<open>markForCheck\<close>, \<open>detach\<close>, \<open>checkNoChanges\<close> and \<open>reattach\<close>, raises the error
  \<open>notImplemented()\<close> builds whenever it is invoked, in every world, and changes nothing.
\<close>

theorem control_points_not_implemented:
  "ngDevMode K \<Longrightarrow>
     markForCheck (createViewRef K dc context) w = (Inl NotImplementedError, w) \<and>
     detach (createViewRef K dc context) w = (Inl NotImplementedError, w) \<and>
     checkNoChanges (createViewRef K dc context) w = (Inl NotImplementedError, w) \<and>
     reattach (createViewRef K dc context) w = (Inl NotImplementedError, w)"
  by (simp add: createViewRef_def addDestroyable_def notImplemented_def)

theorem control_points_not_implemented_witness:
  "ngDevMode (exK True) \<and>
   markForCheck exHandle exWorld = (Inl NotImplementedError, exWorld) \<and>
   detach exHandle exWorld = (Inl NotImplementedError, exWorld) \<and>
   checkNoChanges exHandle exWorld = (Inl NotImplementedError, exWorld) \<and>
   reattach exHandle exWorld = (Inl NotImplementedError, exWorld)"
proof -
  have dev: "ngDevMode (exK True)" by (simp add: exK_def)
  show ?thesis
    unfolding exHandle_def
    using dev control_points_not_implemented [OF dev,
        of "js_bind (detectChanges (exK True)) (Instance 0) []" "Instance 0" exWorld]
    by simp
qed


end
